theory Spec2Isabelle
  imports Main "HOL-Library.AList" "HOL-Library.Char_ord" "HOL-Library.List_Lexorder"
begin

section \<open>Example manifest generation (pkg/examples/example.go)\<close>

text \<open>
  A shallow embedding of the example generator: the field transformer
  \<open>transformFields\<close>, the secret reference heuristic \<open>getSecretRef\<close>, the manifest
  writer \<open>writeManifest\<close> and the store phase \<open>StoreExamples\<close>.

  Go strings are byte sequences and are modelled as \<open>string\<close> (a list of 8-bit
  characters). Go maps are association lists that are only read through \<open>map_of\<close>,
  removed from with \<open>AList.delete\<close> and written with \<open>AList.update\<close>.
\<close>

subsection \<open>Strings: the library calls of the source\<close>

text \<open>\<open>strings.HasPrefix(s, p)\<close>.\<close>

fun hasPrefix :: "string \<Rightarrow> string \<Rightarrow> bool" where
  "hasPrefix s [] = True"
| "hasPrefix [] (p # ps) = False"
| "hasPrefix (c # cs) (p # ps) = (c = p \<and> hasPrefix cs ps)"

text \<open>
  \<open>strings.Split(s, sep)\<close> for a separator of one byte: a string without the separator
  (the empty string too) gives a slice of length one.
\<close>

fun splitOn :: "char \<Rightarrow> string \<Rightarrow> string list" where
  "splitOn sep [] = [[]]"
| "splitOn sep (c # cs) =
     (if c = sep then [] # splitOn sep cs
      else (case splitOn sep cs of
              [] \<Rightarrow> [[c]]
            | w # ws \<Rightarrow> (c # w) # ws))"

text \<open>\<open>strings.Join(elems, sep)\<close>.\<close>

fun join :: "string list \<Rightarrow> string \<Rightarrow> string" where
  "join [] sep = []"
| "join [x] sep = x"
| "join (x # y # ys) sep = x @ sep @ join (y # ys) sep"

text \<open>
  \<open>filepath.Split(path)\<close> with the separator \<open>/\<close>: the directory ends with the last
  separator, the file is what follows it.
\<close>

definition filepath_Split :: "string \<Rightarrow> string \<times> string" where
  "filepath_Split path =
     (let file = rev (takeWhile (\<lambda>c. c \<noteq> CHR ''/'') (rev path))
      in (take (length path - length file) path, file))"

text \<open>
  \<open>strings.ToLower\<close> on the ASCII letters (bytes \<open>0x41\<close> to \<open>0x5A\<close>); other bytes are
  kept. \<open>strings.ReplaceAll(s, "_", "-")\<close> replaces a single byte.
\<close>

definition toLowerChar :: "char \<Rightarrow> char" where
  "toLowerChar c =
     (let n = (of_char c :: nat) in if 65 \<le> n \<and> n \<le> 90 then char_of (n + 32) else c)"

definition toLower :: "string \<Rightarrow> string" where
  "toLower s = map toLowerChar s"

definition replaceAllChar :: "string \<Rightarrow> char \<Rightarrow> char \<Rightarrow> string" where
  "replaceAllChar s old new = map (\<lambda>c. if c = old then new else c) s"

subsection \<open>Regular expressions of the shape \<open>P(.+)S\<close>\<close>

text \<open>
  Both regular expressions of the source have the shape: a literal prefix, the group
  \<open>(.+)\<close>, a literal suffix. \<open>FindStringSubmatch\<close> returns \<open>nil\<close> (here \<open>[]\<close>) when
  nothing matches, and otherwise the leftmost match followed by its group. The group is
  greedy: at the leftmost start it is the longest run of bytes other than a line feed
  that the suffix follows.
\<close>

fun dotPlusThen :: "string \<Rightarrow> string \<Rightarrow> string option" where
  "dotPlusThen suf [] = None"
| "dotPlusThen suf (c # cs) =
     (if c = CHR 0x0A then None
      else (case dotPlusThen suf cs of
              Some g \<Rightarrow> Some (c # g)
            | None \<Rightarrow> if hasPrefix cs suf then Some [c] else None))"

fun findStringSubmatch :: "string \<Rightarrow> string \<Rightarrow> string \<Rightarrow> string list" where
  "findStringSubmatch pre suf [] = []"
| "findStringSubmatch pre suf (c # cs) =
     (if hasPrefix (c # cs) pre
      then (case dotPlusThen suf (drop (length pre) (c # cs)) of
              Some g \<Rightarrow> [pre @ g @ suf, g]
            | None \<Rightarrow> findStringSubmatch pre suf cs)
      else findStringSubmatch pre suf cs)"

text \<open>\<open>reFile = regexp.MustCompile(`file\("(.+)"\)`)\<close>.\<close>

definition reFile :: "string \<Rightarrow> string list" where
  "reFile s = findStringSubmatch [CHR ''f'', CHR ''i'', CHR ''l'', CHR ''e'', CHR ''('', CHR 0x22]
                                  [CHR 0x22, CHR '')''] s"

text \<open>
  Modelled from the spec: \<open>reference.ReRef\<close>, the interpolation pattern, is declared in
  pkg/registry/reference, which is not part of the sources at hand. The spec calls it
  the interpolation pattern with a captured inner expression and gives
  \<open>${data.vault_secret.ex_db.password}\<close> as a match; it is taken as \<open>\${(.+)}\<close>.
\<close>

definition ReRef :: "string \<Rightarrow> string list" where
  "ReRef s = findStringSubmatch ''${'' ''}'' s"

subsection \<open>Values of type \<open>any\<close>\<close>

text \<open>
  The dynamic types that occur in a parameter tree. A type switch of the source
  tells \<open>map[string]any\<close> from \<open>map[string]string\<close> and \<open>[]any\<close> from
  \<open>[]map[string]any\<close>, so each has its own constructor. The program never
  computes with a number: \<open>VNumber\<close> carries the text that \<open>%v\<close> prints for it.
\<close>

datatype val =
    VNil
  | VBool bool
  | VNumber string
  | VString string
  | VSlice "val list"
  | VMap "(string \<times> val) list"
  | VMapSlice "(string \<times> val) list list"
  | VStringMap "(string \<times> string) list"

type_synonym params = "(string \<times> val) list"

subsection \<open>Constants\<close>

definition labelExampleName :: string where
  "labelExampleName = ''testing.upbound.io/example-name''"

definition defaultExampleName :: string where
  "defaultExampleName = ''example''"

definition defaultNamespace :: string where
  "defaultNamespace = ''upbound-system''"

subsection \<open>getSecretRef\<close>

definition getSecretRef :: "val \<Rightarrow> string \<times> string" where
  "getSecretRef v =
     (let secretName = ''example-secret''; secretKey = ''example-key''
      in case v of
           VString s \<Rightarrow>
             (let g = ReRef s in
              if length g \<noteq> 2 then (secretName, secretKey)
              else
                (let f = reFile (g ! 1) in
                 if length f = 2
                 then (secretName, ''attribute.'' @ snd (filepath_Split (f ! 1)))
                 else
                   (let parts = splitOn CHR ''.'' (g ! 1) in
                    if length parts < 3 then (secretName, secretKey)
                    else (''example-'' @ join (drop 1 (splitOn CHR ''_'' (parts ! 0))) ''-'',
                          ''attribute.'' @ join (drop 2 parts) ''.''))))
         | _ \<Rightarrow> (secretName, secretKey))"

subsection \<open>The resource configuration\<close>

datatype valueType =
  TypeInvalid | TypeBool | TypeInt | TypeFloat | TypeString | TypeList | TypeMap | TypeSet

text \<open>
  Modelled from the spec: a field schema as the schema lookup of the spec returns it
  (observed-only flag, sensitive flag, cardinality). \<open>IsObservation\<close> is the result of
  \<open>tjtypes.IsObservation\<close> on the schema; pkg/types is not part of the sources at hand.
\<close>

record tfSchema =
  SchemaType :: valueType
  Sensitive :: bool
  IsObservation :: bool

text \<open>
  Modelled from the spec: \<open>config.Reference\<close>, the declared cross-resource reference
  metadata with the configured names of the reference and selector fields; the source
  reads \<open>RefFieldName\<close> and \<open>SelectorFieldName\<close> and compares the whole struct with its
  zero value. \<open>RefTarget\<close> stands for the remaining fields.
\<close>

record reference =
  RefTarget :: string
  RefFieldName :: string
  SelectorFieldName :: string

definition zeroReference :: reference where
  "zeroReference = \<lparr>RefTarget = [], RefFieldName = [], SelectorFieldName = []\<rparr>"

text \<open>
  Modelled from the spec: an example definition (\<open>registry.ResourceExample\<close>) with its
  name, its parameter tree and the map from dependency identifier to the raw parameter
  blob of the dependency; \<open>registry.Resource\<close> holds the examples of a resource.
\<close>

record resourceExample =
  ExName :: string
  ExPaved :: "(string \<times> val) list"
  Dependencies :: "(string \<times> string) list"

record registryResource =
  Examples :: "resourceExample list"

text \<open>
  \<open>config.Resource\<close>, with the fields the generator reads. \<open>TerraformResource\<close> is the
  Terraform schema, represented by its lookup from hierarchical path to field schema;
  \<open>OmittedFields\<close> is \<open>r.ExternalName.OmittedFields\<close>; \<open>MetaResource\<close> is a pointer, \<open>None\<close> is
  \<open>nil\<close>.
\<close>

record resource =
  ResourceName :: string
  Kind :: string
  TerraformResource :: "string \<Rightarrow> tfSchema option"
  References :: "(string \<times> reference) list"
  OmittedFields :: "string list"
  MetaResource :: "registryResource option"

text \<open>
  Modelled from the spec: \<open>config.GetSchema\<close>, the schema lookup by full hierarchical
  path (pkg/config is not part of the sources at hand); \<open>None\<close> is its \<open>nil\<close>.
\<close>

definition GetSchema :: "(string \<Rightarrow> tfSchema option) \<Rightarrow> string \<Rightarrow> tfSchema option" where
  "GetSchema sch fieldpath = sch fieldpath"

text \<open>\<open>r.References[fieldPath]\<close>: a missing key reads as the zero value.\<close>

definition referenceAt :: "resource \<Rightarrow> string \<Rightarrow> reference" where
  "referenceAt r fieldPath =
     (case map_of (References r) fieldPath of
        None \<Rightarrow> zeroReference
      | Some ref \<Rightarrow> ref)"

subsection \<open>Library calls taken as parameters\<close>

text \<open>
  The packages pkg/types/name and pkg/registry/reference and Go's \<open>fmt\<close> are not part of
  the sources at hand. The functions of them that \<open>transformFields\<close> calls are
  parameters of the model:
  \<^item> \<open>lowerCamelComputed n\<close> is \<open>name.NewFromSnake(n).LowerCamelComputed\<close>;
  \<^item> \<open>referenceFieldName n l override\<close> is
    \<open>name.ReferenceFieldName(name.NewFromSnake(n), l, override).LowerCamelComputed\<close>;
  \<^item> \<open>selectorFieldName n override\<close> is
    \<open>name.SelectorFieldName(name.NewFromSnake(n), override).LowerCamelComputed\<close>;
  \<^item> \<open>matchRefParts s\<close> is \<open>reference.MatchRefParts(s)\<close>, reduced to the \<open>ExampleName\<close>
    of the parts it returns (\<open>None\<close> for \<open>nil\<close>);
  \<^item> \<open>sprintV v\<close> is \<open>fmt.Sprintf("%v", v)\<close>;
  \<^item> \<open>rangeKeys prefix ps\<close> is the sequence of keys that the \<open>range\<close> of the rewrite pass
    yields on the map \<open>ps\<close>. The loop body deletes and inserts entries of the map it
    ranges over: Go yields the entries in an unspecified order, each entry that is
    still present when it is reached, and an entry created during the loop may be
    yielded or skipped. \<open>map fst ps\<close> is the order in which no created entry is
    yielded.
\<close>

record env =
  lowerCamelComputed :: "string \<Rightarrow> string"
  referenceFieldName :: "string \<Rightarrow> bool \<Rightarrow> string \<Rightarrow> string"
  selectorFieldName :: "string \<Rightarrow> string \<Rightarrow> string"
  matchRefParts :: "string \<Rightarrow> string option"
  sprintV :: "val \<Rightarrow> string"
  rangeKeys :: "string \<Rightarrow> params \<Rightarrow> string list"

subsection \<open>transformFields\<close>

definition getHierarchicalName :: "string \<Rightarrow> string \<Rightarrow> string" where
  "getHierarchicalName prefix name = (if prefix = [] then name else prefix @ ''.'' @ name)"

definition isStatus :: "resource \<Rightarrow> string \<Rightarrow> bool" where
  "isStatus r attr =
     (case GetSchema (TerraformResource r) attr of
        None \<Rightarrow> False
      | Some s \<Rightarrow> IsObservation s)"

text \<open>
  \<open>getNameRefField\<close> asserts that its argument is a \<open>[]any\<close>; its only call is in the
  \<open>[]any\<close> case of a type switch, and the model takes the slice.
\<close>

definition getNameRefField :: "env \<Rightarrow> val list \<Rightarrow> val" where
  "getNameRefField e arr =
     VMapSlice (map (\<lambda>r. [(''name'',
                            VString (case matchRefParts e (sprintV e r) of
                                       None \<Rightarrow> defaultExampleName
                                     | Some exampleName \<Rightarrow> exampleName))]) arr)"

definition getSelectorField :: "env \<Rightarrow> val \<Rightarrow> val" where
  "getSelectorField e refVal =
     VMap [(''matchLabels'',
            VStringMap [(labelExampleName,
                         (case matchRefParts e (sprintV e refVal) of
                            None \<Rightarrow> defaultExampleName
                          | Some exampleName \<Rightarrow> exampleName))])]"

definition getRefField :: "val \<Rightarrow> val \<Rightarrow> val" where
  "getRefField v ref = (case v of VSlice _ \<Rightarrow> VSlice [ref] | _ \<Rightarrow> ref)"

text \<open>The first loop: the keys of status fields and of omitted fields are deleted.\<close>

definition elide :: "resource \<Rightarrow> string list \<Rightarrow> string \<Rightarrow> params \<Rightarrow> params" where
  "elide r omittedFields namePrefix ps =
     filter (\<lambda>(n, v). let hName = getHierarchicalName namePrefix n
                      in \<not> isStatus r hName \<and> hName \<notin> set omittedFields) ps"

text \<open>The body of the third loop, for the entry \<open>n\<close>, \<open>v\<close> of the map \<open>ps\<close>.\<close>

definition rewriteField :: "env \<Rightarrow> resource \<Rightarrow> string \<Rightarrow> string \<Rightarrow> val \<Rightarrow> params \<Rightarrow> params" where
  "rewriteField e r namePrefix n v ps =
     (let fieldPath = getHierarchicalName namePrefix n in
      case GetSchema (TerraformResource r) fieldPath of
        None \<Rightarrow> ps
      | Some sch \<Rightarrow>
          (let ps' = AList.delete n ps in
           if Sensitive sch then
             (let (secretName, secretKey) = getSecretRef v in
              AList.update (lowerCamelComputed e n @ ''SecretRef'')
                (getRefField v (VMap [(''name'', VString secretName),
                                      (''namespace'', VString defaultNamespace),
                                      (''key'', VString secretKey)])) ps')
           else if referenceAt r fieldPath \<noteq> zeroReference then
             (case v of
                VSlice arr \<Rightarrow>
                  (let l = (SchemaType sch = TypeList \<or> SchemaType sch = TypeSet) in
                   AList.update (referenceFieldName e n l (RefFieldName (referenceAt r fieldPath)))
                     (getNameRefField e arr) ps')
              | _ \<Rightarrow>
                  AList.update (selectorFieldName e n (SelectorFieldName (referenceAt r fieldPath)))
                    (getSelectorField e v) ps')
           else AList.update (lowerCamelComputed e n) v ps'))"

text \<open>
  The third loop, over the keys that the \<open>range\<close> yields: a key that is not in the map
  when its turn comes is not yielded, and the value is the one the map holds then.
\<close>

fun rewriteFields :: "env \<Rightarrow> resource \<Rightarrow> string \<Rightarrow> string list \<Rightarrow> params \<Rightarrow> params" where
  "rewriteFields e r namePrefix [] ps = ps"
| "rewriteFields e r namePrefix (n # ns) ps =
     (case map_of ps n of
        None \<Rightarrow> rewriteFields e r namePrefix ns ps
      | Some v \<Rightarrow> rewriteFields e r namePrefix ns (rewriteField e r namePrefix n v ps))"

text \<open>
  \<open>transformFields\<close> changes the map in place; the model returns the new map.
  \<open>recurseInto\<close> is the type switch of the second loop on one value.
\<close>

function transformFields :: "env \<Rightarrow> resource \<Rightarrow> params \<Rightarrow> string list \<Rightarrow> string \<Rightarrow> params"
  and recurseInto :: "env \<Rightarrow> resource \<Rightarrow> string list \<Rightarrow> string \<Rightarrow> val \<Rightarrow> val"
where
  "transformFields e r ps omittedFields namePrefix =
     (let ps1 = elide r omittedFields namePrefix ps;
          ps2 = map (\<lambda>(n, v). (n, recurseInto e r omittedFields
                                     (getHierarchicalName namePrefix n) v)) ps1
      in rewriteFields e r namePrefix (rangeKeys e namePrefix ps2) ps2)"
| "recurseInto e r omittedFields path (VMap pT) =
     VMap (transformFields e r pT omittedFields path)"
| "recurseInto e r omittedFields path (VSlice pT) =
     VSlice (map (\<lambda>el. case el of
                          VMap eM \<Rightarrow> VMap (transformFields e r eM omittedFields path)
                        | _ \<Rightarrow> el) pT)"
| "recurseInto e r omittedFields path VNil = VNil"
| "recurseInto e r omittedFields path (VBool b) = VBool b"
| "recurseInto e r omittedFields path (VNumber t) = VNumber t"
| "recurseInto e r omittedFields path (VString s) = VString s"
| "recurseInto e r omittedFields path (VMapSlice ms) = VMapSlice ms"
| "recurseInto e r omittedFields path (VStringMap sm) = VStringMap sm"
  by pat_completeness auto
termination
proof (relation "measure (\<lambda>x. case x of
           Inl (e, r, ps, om, p) \<Rightarrow> 2 * size_list (size_prod (\<lambda>_. 0) size) ps + 1
         | Inr (e, r, om, p, v) \<Rightarrow> 2 * size v)", goal_cases)
  case 1
  show ?case by simp
next
  case (2 e r ps om p ps1 x n v)
  then have "(n, v) \<in> set ps" by (auto simp: elide_def)
  then have "size v < Suc (size_list (size_prod (\<lambda>_. 0) size) ps)"
    by (induction ps) auto
  then show ?case by simp
next
  case (3 e r om p pT)
  show ?case by simp
next
  case (4 e r om p pT el eM)
  then have "size el \<le> size_list size pT"
    by (induction pT) auto
  with 4 show ?case by simp
qed

subsection \<open>An instance of the library parameters\<close>

text \<open>
  Modelled from the spec: the case conversion of a snake case field name (the first
  word in lower case, each later word capitalised), the derived names of reference and
  selector fields "honoring a configured override", and the recognizable reference
  pattern (an interpolation of resource type, resource name and attribute path, whose
  second component names the example). The theorems below hold for every \<open>env\<close>; this
  instance evaluates them on concrete inputs.
\<close>

definition capitalize :: "string \<Rightarrow> string" where
  "capitalize s =
     (case s of
        [] \<Rightarrow> []
      | c # cs \<Rightarrow>
          (let n = (of_char c :: nat)
           in (if 97 \<le> n \<and> n \<le> 122 then char_of (n - 32) else c) # cs))"

definition snakeToLowerCamel :: "string \<Rightarrow> string" where
  "snakeToLowerCamel s =
     (case splitOn CHR ''_'' s of
        [] \<Rightarrow> []
      | w # ws \<Rightarrow> toLower w @ concat (map capitalize ws))"

definition matchInterpolation :: "string \<Rightarrow> string option" where
  "matchInterpolation s =
     (let g = ReRef s in
      if length g \<noteq> 2 then None
      else (let parts = splitOn CHR ''.'' (g ! 1)
            in if length parts < 3 then None else Some (parts ! 1)))"

fun fmtV :: "val \<Rightarrow> string" where
  "fmtV VNil = ''<nil>''"
| "fmtV (VBool b) = (if b then ''true'' else ''false'')"
| "fmtV (VNumber t) = t"
| "fmtV (VString s) = s"
| "fmtV (VSlice xs) = ''['' @ join (map fmtV xs) '' '' @ '']''"
| "fmtV (VMap ps) =
     ''map['' @ join (map (\<lambda>(k, v). k @ '':'' @ fmtV v) (sort_key fst ps)) '' '' @ '']''"
| "fmtV (VMapSlice ms) =
     ''['' @ join (map (\<lambda>ps. ''map['' @ join (map (\<lambda>(k, v). k @ '':'' @ fmtV v)
                                                   (sort_key fst ps)) '' '' @ '']'') ms) '' ''
      @ '']''"
| "fmtV (VStringMap sm) =
     ''map['' @ join (map (\<lambda>(k, v). k @ '':'' @ v) (sort_key fst sm)) '' '' @ '']''"

definition exampleEnv :: env where
  "exampleEnv =
     \<lparr>lowerCamelComputed = snakeToLowerCamel,
      referenceFieldName = (\<lambda>n l override.
         if override \<noteq> [] then override
         else snakeToLowerCamel n @ (if l then ''Refs'' else ''Ref'')),
      selectorFieldName = (\<lambda>n override.
         if override \<noteq> [] then override else snakeToLowerCamel n @ ''Selector''),
      matchRefParts = matchInterpolation,
      sprintV = fmtV,
      rangeKeys = (\<lambda>prefix ps. map fst ps)\<rparr>"

subsection \<open>Names that the rewrite pass inserts\<close>

text \<open>
  The keys that the third loop can insert for the schema field \<open>k\<close> with schema \<open>sch\<close>:
  the secret reference name, the reference or selector name, or the case-converted
  name, by the branch of the switch that the field takes.
\<close>

definition rewrittenNames :: "env \<Rightarrow> resource \<Rightarrow> string \<Rightarrow> string \<Rightarrow> tfSchema \<Rightarrow> string set" where
  "rewrittenNames e r namePrefix k sch =
     (if Sensitive sch then {lowerCamelComputed e k @ ''SecretRef''}
      else if referenceAt r (getHierarchicalName namePrefix k) \<noteq> zeroReference
      then {referenceFieldName e k (SchemaType sch = TypeList \<or> SchemaType sch = TypeSet)
              (RefFieldName (referenceAt r (getHierarchicalName namePrefix k))),
            selectorFieldName e k
              (SelectorFieldName (referenceAt r (getHierarchicalName namePrefix k)))}
      else {lowerCamelComputed e k})"

text \<open>The values that the second loop does not enter and leaves as they are.\<close>

definition isScalar :: "val \<Rightarrow> bool" where
  "isScalar v =
     (case v of
        VNil \<Rightarrow> True
      | VBool _ \<Rightarrow> True
      | VNumber _ \<Rightarrow> True
      | VString _ \<Rightarrow> True
      | _ \<Rightarrow> False)"

text \<open>The example name that a reference placeholder gets from the text of a value.\<close>

definition exampleNameOf :: "env \<Rightarrow> val \<Rightarrow> string" where
  "exampleNameOf e v =
     (case matchRefParts e (sprintV e v) of
        None \<Rightarrow> ''example''
      | Some exampleName \<Rightarrow> exampleName)"

subsection \<open>Errors\<close>

text \<open>
  An error value of Go carries its message; a panic is a result of its own. A panic is
  not an error value: \<open>errors.Wrap\<close> never sees it.
\<close>

datatype error = Error string | Panic string

definition wrap :: "error \<Rightarrow> string \<Rightarrow> error" where
  "wrap err msg =
     (case err of
        Error m \<Rightarrow> Error (msg @ '': '' @ m)
      | Panic m \<Rightarrow> Panic m)"

subsection \<open>Paved documents\<close>

text \<open>
  \<open>fieldpath.Paved\<close> of crossplane-runtime, for paths of field segments: \<open>GetValue\<close>
  fails on a missing field and on a parent that is not an object; \<open>SetValue\<close> creates a
  missing (or \<open>nil\<close>) parent object and fails on a parent that is not an object.
\<close>

fun getValue :: "params \<Rightarrow> string list \<Rightarrow> error + val" where
  "getValue object [] = Inr VNil"
| "getValue object [f] =
     (case map_of object f of
        None \<Rightarrow> Inl (Error (f @ '': no such field''))
      | Some v \<Rightarrow> Inr v)"
| "getValue object (f # g # fs) =
     (case map_of object f of
        None \<Rightarrow> Inl (Error (f @ '': no such field''))
      | Some (VMap child) \<Rightarrow> getValue child (g # fs)
      | Some _ \<Rightarrow> Inl (Error (f @ '': not an object'')))"

fun setValue :: "params \<Rightarrow> string list \<Rightarrow> val \<Rightarrow> error + params" where
  "setValue object [] v = Inr object"
| "setValue object [f] v = Inr (AList.update f v object)"
| "setValue object (f # g # fs) v =
     (case (case map_of object f of None \<Rightarrow> VMap [] | Some VNil \<Rightarrow> VMap [] | Some c \<Rightarrow> c) of
        VMap child \<Rightarrow>
          (case setValue child (g # fs) v of
             Inl err \<Rightarrow> Inl err
           | Inr child' \<Rightarrow> Inr (AList.update f (VMap child') object))
      | _ \<Rightarrow> Inl (Error (f @ '' is not an object'')))"

text \<open>
  Modelled from the spec: \<open>reference.PavedWithManifest\<close>, the paved manifest with the
  document, the prefix of the parameter subtree, the owning resource configuration,
  group and version, the assigned example name and the target file path; and
  \<open>reference.ResolutionContext\<close>, the table of paved manifests by resource identifier
  with the wildcard flag. Both are declared in pkg/registry/reference.
\<close>

record pavedWithManifest =
  Paved :: params
  ManifestPath :: string
  ParamsPrefix :: "string list"
  Config :: resource
  Group :: string
  Version :: string
  ExampleName :: string

record resolutionContext =
  WildcardNames :: bool
  Context :: "(string \<times> pavedWithManifest) list"

text \<open>
  Modelled from the spec: the parts of a resource identifier (\<open>reference.Parts\<close>), a
  dotted string of a resource and an example name.
\<close>

record refParts =
  PartsResource :: string
  PartsExampleName :: string

text \<open>
  The calls of the store phase into code that is not part of the sources at hand, and
  into the operating system, are parameters:
  \<^item> \<open>resolveReferencesOfPaved\<close> is \<open>Injector.ResolveReferencesOfPaved\<close>, which changes the
    paved manifest in place and may fail;
  \<^item> \<open>yamlMarshal\<close> is \<open>yaml.Marshal\<close>, \<open>tfUnmarshal\<close> is \<open>json.TFParser.Unmarshal\<close>;
  \<^item> \<open>prepareLocalResolutionContext\<close>, \<open>newRefPartsFromResourceName\<close> and
    \<open>getResourceName\<close> are the functions of these names in pkg/registry/reference;
  \<^item> \<open>filepathDir\<close> is \<open>filepath.Dir\<close>; \<open>mkdirAll\<close> and \<open>writeFile\<close> say whether
    \<open>os.MkdirAll\<close> and \<open>ioutil.WriteFile\<close> fail.
\<close>

record sys =
  resolveReferencesOfPaved ::
    "pavedWithManifest \<Rightarrow> resolutionContext \<Rightarrow> error option \<times> pavedWithManifest"
  yamlMarshal :: "params \<Rightarrow> error + string"
  tfUnmarshal :: "string \<Rightarrow> error + params"
  prepareLocalResolutionContext :: "resourceExample \<Rightarrow> string \<Rightarrow> error + resolutionContext"
  newRefPartsFromResourceName :: "string \<Rightarrow> refParts"
  getResourceName :: "refParts \<Rightarrow> bool \<Rightarrow> string"
  filepathDir :: "string \<Rightarrow> string"
  mkdirAll :: "string \<Rightarrow> error option"
  writeFile :: "string \<Rightarrow> string \<Rightarrow> error option"

subsection \<open>paveCRManifest, dns1123Name, writeManifest\<close>

definition paveCRManifest ::
  "env \<Rightarrow> params \<Rightarrow> resource \<Rightarrow> string \<Rightarrow> string \<Rightarrow> string \<Rightarrow> pavedWithManifest" where
  "paveCRManifest e exampleParams r eName grp version =
     (let exampleParams' = transformFields e r exampleParams (OmittedFields r) [];
          example =
            [(''apiVersion'', VString (grp @ ''/'' @ version)),
             (''kind'', VString (Kind r)),
             (''metadata'', VMap [(''labels'', VStringMap [(labelExampleName, eName)])]),
             (''spec'', VMap [(''forProvider'', VMap exampleParams')])]
      in \<lparr>Paved = example, ManifestPath = [], ParamsPrefix = [''spec'', ''forProvider''],
          Config = r, Group = grp, Version = version, ExampleName = []\<rparr>)"

definition dns1123Name :: "string \<Rightarrow> string" where
  "dns1123Name name = replaceAllChar (toLower name) CHR ''_'' CHR ''-''"

text \<open>The document separator \<open>"\n---\n\n"\<close>.\<close>

definition documentSeparator :: string where
  "documentSeparator = [CHR 0x0A] @ ''---'' @ [CHR 0x0A, CHR 0x0A]"

text \<open>
  \<open>writeManifest\<close> returns an error, appends to the writer and changes the paved manifest
  in place; the model returns the three. The writer of the only call is a
  \<open>bytes.Buffer\<close>, whose \<open>Write\<close> appends and returns no error. A type assertion on a
  value of another dynamic type panics. \<open>labels[labelExampleName]\<close> of a missing key is
  the empty string. \<open>UnstructuredContent\<close> is the object of the paved manifest itself, so
  the \<open>delete\<close> changes the paved manifest too.
\<close>

definition writeManifest ::
  "sys \<Rightarrow> string \<Rightarrow> pavedWithManifest \<Rightarrow> resolutionContext
     \<Rightarrow> error option \<times> string \<times> pavedWithManifest" where
  "writeManifest y writer pm resolutionContext =
     (case resolveReferencesOfPaved y pm resolutionContext of
        (Some err, pm1) \<Rightarrow>
          (Some (wrap err ''cannot resolve references of resource''), writer, pm1)
      | (None, pm1) \<Rightarrow>
          (case getValue (Paved pm1) [''metadata'', ''labels''] of
             Inl err \<Rightarrow>
               (Some (wrap err ''cannot get metadata.labels from paved''), writer, pm1)
           | Inr (VStringMap labels) \<Rightarrow>
               (let pm2 = pm1\<lparr>ExampleName :=
                            dns1123Name (case map_of labels labelExampleName of
                                           None \<Rightarrow> []
                                         | Some s \<Rightarrow> s)\<rparr>
                in case setValue (Paved pm2) [''metadata'', ''name''] (VString (ExampleName pm2)) of
                     Inl err \<Rightarrow>
                       (Some (wrap err (''cannot set metadata.name for resource ''
                                         @ ResourceName (Config pm2) @ '':'' @ ExampleName pm2)),
                        writer, pm2)
                   | Inr object \<Rightarrow>
                       (let pm3 = pm2\<lparr>Paved := object\<rparr> in
                        case map_of object ''spec'' of
                          Some (VMap spec) \<Rightarrow>
                            (case map_of spec ''forProvider'' of
                               Some (VMap forProvider) \<Rightarrow>
                                 (let u = AList.update ''spec''
                                            (VMap (AList.update ''forProvider''
                                               (VMap (AList.delete ''depends_on'' forProvider))
                                               spec)) object;
                                      pm4 = pm3\<lparr>Paved := u\<rparr>
                                  in case yamlMarshal y u of
                                       Inl err \<Rightarrow>
                                         (Some (wrap err ''cannot marshal example resource manifest''),
                                          writer, pm4)
                                     | Inr buff \<Rightarrow>
                                         (None, writer @ buff @ documentSeparator, pm4))
                             | _ \<Rightarrow> (Some (Panic ''interface conversion''), writer, pm3))
                        | _ \<Rightarrow> (Some (Panic ''interface conversion''), writer, pm3)))
           | Inr _ \<Rightarrow> (Some (Panic ''interface conversion''), writer, pm1)))"

subsection \<open>StoreExamples\<close>

record generator =
  rootDir :: string
  configResources :: "(string \<times> resource) list"
  resources :: "(string \<times> pavedWithManifest) list"

text \<open>
  The keys of the dependency map, collected in the order of the \<open>range\<close> and sorted by
  \<open>sort.Strings\<close> (the order of the bytes).
\<close>

definition dependencyKeys :: "(string \<times> string) list \<Rightarrow> string list" where
  "dependencyKeys dependencies = sort (map fst dependencies)"

text \<open>The loop over the sorted dependency keys; it appends to the buffer of the resource.\<close>

fun storeDependencies ::
  "sys \<Rightarrow> env \<Rightarrow> generator \<Rightarrow> resolutionContext \<Rightarrow> string \<Rightarrow> resourceExample
     \<Rightarrow> string list \<Rightarrow> string \<Rightarrow> error option \<times> string" where
  "storeDependencies y e eg context rn re [] buff = (None, buff)"
| "storeDependencies y e eg context rn re (dn # dKeys) buff =
     (case map_of (resources eg) (getResourceName y (newRefPartsFromResourceName y dn) True) of
        None \<Rightarrow> storeDependencies y e eg context rn re dKeys buff
      | Some dr \<Rightarrow>
          (case tfUnmarshal y (case map_of (Dependencies re) dn of None \<Rightarrow> [] | Some s \<Rightarrow> s) of
             Inl err \<Rightarrow>
               (Some (wrap err (''cannot unmarshal example manifest for resource: ''
                                 @ ResourceName (Config dr))), buff)
           | Inr exampleParams \<Rightarrow>
               (let pmd = paveCRManifest e exampleParams (Config dr)
                            (PartsExampleName (newRefPartsFromResourceName y dn))
                            (Group dr) (Version dr)
                in case writeManifest y buff pmd context of
                     (Some err, buff', pmd') \<Rightarrow>
                       (Some (wrap err (''cannot store example manifest for '' @ rn
                                         @ '' dependency: '' @ dn)), buff')
                   | (None, buff', pmd') \<Rightarrow>
                       storeDependencies y e eg context rn re dKeys buff')))"

text \<open>
  The part of the loop body between the primary document and the file write:
  \<open>Examples[0]\<close> of an empty slice panics.
\<close>

definition storeExampleDependencies ::
  "sys \<Rightarrow> env \<Rightarrow> generator \<Rightarrow> string \<Rightarrow> string \<Rightarrow> error option \<times> string" where
  "storeExampleDependencies y e eg rn buff =
     (case map_of (configResources eg) (PartsResource (newRefPartsFromResourceName y rn)) of
        None \<Rightarrow> (None, buff)
      | Some r \<Rightarrow>
          (case MetaResource r of
             None \<Rightarrow> (None, buff)
           | Some mr \<Rightarrow>
               (case Examples mr of
                  [] \<Rightarrow> (Some (Panic ''index out of range''), buff)
                | re # _ \<Rightarrow>
                    (case prepareLocalResolutionContext y re
                            (getResourceName y
                               \<lparr>PartsResource = PartsResource (newRefPartsFromResourceName y rn),
                                PartsExampleName = ExName re\<rparr> False) of
                       Inl err \<Rightarrow>
                         (Some (wrap err (''cannot prepare local resolution context for resource: ''
                                           @ rn)), buff)
                     | Inr context \<Rightarrow>
                         storeDependencies y e eg context rn re
                           (dependencyKeys (Dependencies re)) buff))))"

text \<open>
  The body of the loop of \<open>StoreExamples\<close> for the entry \<open>rn\<close>, \<open>pm\<close>. The files are a map
  from path to content. The paved manifest is shared with the table \<open>resources\<close>, so what
  \<open>writeManifest\<close> changes is stored there.
\<close>

definition storeResource ::
  "sys \<Rightarrow> env \<Rightarrow> generator \<Rightarrow> (string \<times> string) list \<Rightarrow> string \<Rightarrow> pavedWithManifest
     \<Rightarrow> error option \<times> generator \<times> (string \<times> string) list" where
  "storeResource y e eg files rn pm =
     (let manifestDir = filepathDir y (ManifestPath pm) in
      case mkdirAll y manifestDir of
        Some err \<Rightarrow> (Some (wrap err (''cannot mkdir '' @ manifestDir)), eg, files)
      | None \<Rightarrow>
          (case writeManifest y [] pm \<lparr>WildcardNames = True, Context = resources eg\<rparr> of
             (Some err, buff, pm') \<Rightarrow>
               (Some (wrap err (''cannot store example manifest for resource: '' @ rn)),
                eg\<lparr>resources := AList.update rn pm' (resources eg)\<rparr>, files)
           | (None, buff, pm') \<Rightarrow>
               (let eg' = eg\<lparr>resources := AList.update rn pm' (resources eg)\<rparr> in
                case storeExampleDependencies y e eg' rn buff of
                  (Some err, buff') \<Rightarrow> (Some err, eg', files)
                | (None, buff') \<Rightarrow>
                    (case writeFile y (ManifestPath pm') buff' of
                       Some err \<Rightarrow>
                         (Some (wrap err (''cannot write example manifest file ''
                                           @ ManifestPath pm' @ '' for resource '' @ rn)),
                          eg', files)
                     | None \<Rightarrow> (None, eg', AList.update (ManifestPath pm') buff' files)))))"

text \<open>
  The loop of \<open>StoreExamples\<close> over the table, in the order of its keys \<open>rns\<close>: the first
  error is returned at once.
\<close>

fun storeLoop ::
  "sys \<Rightarrow> env \<Rightarrow> string list \<Rightarrow> generator \<Rightarrow> (string \<times> string) list
     \<Rightarrow> error option \<times> generator \<times> (string \<times> string) list" where
  "storeLoop y e [] eg files = (None, eg, files)"
| "storeLoop y e (rn # rns) eg files =
     (case map_of (resources eg) rn of
        None \<Rightarrow> storeLoop y e rns eg files
      | Some pm \<Rightarrow>
          (case storeResource y e eg files rn pm of
             (Some err, eg', files') \<Rightarrow> (Some err, eg', files')
           | (None, eg', files') \<Rightarrow> storeLoop y e rns eg' files'))"

definition StoreExamples ::
  "sys \<Rightarrow> env \<Rightarrow> generator \<Rightarrow> (string \<times> string) list
     \<Rightarrow> error option \<times> generator \<times> (string \<times> string) list" where
  "StoreExamples y e eg files = storeLoop y e (map fst (resources eg)) eg files"

subsection \<open>Concrete resources\<close>

text \<open>A resource whose schema has the single, sensitive field \<open>password\<close>.\<close>

definition passwordResource :: resource where
  "passwordResource =
     \<lparr>ResourceName = ''vault_database'', Kind = ''Database'',
      TerraformResource = (\<lambda>p. if p = ''password''
         then Some \<lparr>SchemaType = TypeString, Sensitive = True, IsObservation = False\<rparr>
         else None),
      References = [], OmittedFields = [], MetaResource = None\<rparr>"

section \<open>Properties\<close>

subsection \<open>Helper lemmas\<close>

lemma rewriteFields_stable:
  assumes "GetSchema (TerraformResource r) (getHierarchicalName p k) = None"
  shows "rewriteFields e r p ks [(k, x)] = [(k, x)]"
proof (induction ks)
  case Nil
  show ?case by simp
next
  case (Cons n ns)
  then show ?case using assms by (simp add: rewriteField_def)
qed

lemma rewriteFields_single_sensitive:
  assumes "GetSchema (TerraformResource r) (getHierarchicalName p n) = Some sch"
    and "Sensitive sch"
    and "GetSchema (TerraformResource r)
           (getHierarchicalName p (lowerCamelComputed e n @ ''SecretRef'')) = None"
    and "n \<in> set ks"
  shows "rewriteFields e r p ks [(n, v)] =
           [(lowerCamelComputed e n @ ''SecretRef'',
             getRefField v (VMap [(''name'', VString (fst (getSecretRef v))),
                                  (''namespace'', VString defaultNamespace),
                                  (''key'', VString (snd (getSecretRef v)))]))]"
  using assms(4)
proof (induction ks)
  case Nil
  then show ?case by simp
next
  case (Cons k ks)
  show ?case
  proof (cases "k = n")
    case True
    then show ?thesis
      using assms(1,2) rewriteFields_stable[OF assms(3)]
      by (simp add: rewriteField_def split: prod.splits)
  next
    case False
    with Cons show ?thesis by simp
  qed
qed

subsection \<open>The secret reference heuristic\<close>

text \<open>
  C7 (as amended). \<open>getSecretRef\<close> is a total function without a failing branch: every
  index it reads is guarded by the length test before it. It returns the fixed defaults
  \<open>("example-secret", "example-key")\<close> when the value is not a string, when the string
  does not match the interpolation pattern, and when the inner expression is not a file
  reference and splits into fewer than three components separated by dots. The
  witness runs it on its own defaults, which gives the defaults again.
\<close>

theorem getSecretRef_defaults:
  assumes "case v of
             VString s \<Rightarrow>
               length (ReRef s) \<noteq> 2
               \<or> (length (reFile (ReRef s ! 1)) \<noteq> 2
                  \<and> length (splitOn CHR ''.'' (ReRef s ! 1)) < 3)
           | _ \<Rightarrow> True"
  shows "getSecretRef v = (''example-secret'', ''example-key'')"
  using assms by (cases v) (auto simp: getSecretRef_def Let_def)

theorem getSecretRef_defaults_witness:
  "getSecretRef (VNumber ''1'') = (''example-secret'', ''example-key'')
   \<and> getSecretRef (VString ''example-secret'') = (''example-secret'', ''example-key'')
   \<and> getSecretRef (VString ''example-key'') = (''example-secret'', ''example-key'')
   \<and> getSecretRef (VString ''${a.b}'') = (''example-secret'', ''example-key'')"
proof -
  have h1: "case VNumber ''1'' of
             VString s \<Rightarrow>
               length (ReRef s) \<noteq> 2
               \<or> (length (reFile (ReRef s ! 1)) \<noteq> 2
                  \<and> length (splitOn CHR ''.'' (ReRef s ! 1)) < 3)
           | _ \<Rightarrow> True" by simp
  have h2: "case VString ''example-secret'' of
             VString s \<Rightarrow>
               length (ReRef s) \<noteq> 2
               \<or> (length (reFile (ReRef s ! 1)) \<noteq> 2
                  \<and> length (splitOn CHR ''.'' (ReRef s ! 1)) < 3)
           | _ \<Rightarrow> True" by (simp add: ReRef_def)
  have h3: "case VString ''example-key'' of
             VString s \<Rightarrow>
               length (ReRef s) \<noteq> 2
               \<or> (length (reFile (ReRef s ! 1)) \<noteq> 2
                  \<and> length (splitOn CHR ''.'' (ReRef s ! 1)) < 3)
           | _ \<Rightarrow> True" by (simp add: ReRef_def)
  have h4: "case VString ''${a.b}'' of
             VString s \<Rightarrow>
               length (ReRef s) \<noteq> 2
               \<or> (length (reFile (ReRef s ! 1)) \<noteq> 2
                  \<and> length (splitOn CHR ''.'' (ReRef s ! 1)) < 3)
           | _ \<Rightarrow> True" by (simp add: ReRef_def reFile_def)
  show ?thesis
    using getSecretRef_defaults[OF h1] getSecretRef_defaults[OF h2]
      getSecretRef_defaults[OF h3] getSecretRef_defaults[OF h4] by simp
qed

text \<open>
  C7 as stated fails on a file reference: the string matches the interpolation pattern,
  its inner expression \<open>file("a")\<close> has a single component, and the result is not the
  defaults but the key of the file.
\<close>

theorem getSecretRef_file_counterexample:
  \<open>length (ReRef ''${file("a")}'') = 2
   \<and> length (splitOn CHR ''.'' (ReRef ''${file("a")}'' ! 1)) < 3
   \<and> getSecretRef (VString ''${file("a")}'') = (''example-secret'', ''attribute.a'')
   \<and> getSecretRef (VString ''${file("a")}'') \<noteq> (''example-secret'', ''example-key'')\<close>
  by (simp add: getSecretRef_def ReRef_def reFile_def filepath_Split_def)

subsection \<open>The sensitive field of the end-to-end scenario\<close>

text \<open>
  C2 (as amended). Transforming the tree with the single sensitive schema field
  \<open>password\<close> of value \<open>${data.vault_secret.ex_db.password}\<close> removes the key \<open>password\<close>
  and leaves exactly the key \<open>passwordSecretRef\<close> with the value
  \<open>{name: "example-", namespace: "upbound-system", key: "attribute.ex_db.password"}\<close>:
  the name comes from the first component \<open>data\<close> without its first word, the key from
  the components after the second. This holds for every order in which the range of
  the rewrite pass yields the keys, as long as it yields every key of the map, and for
  every case conversion that keeps \<open>password\<close>.
\<close>

theorem transformFields_password_secret_ref:
  assumes "GetSchema (TerraformResource r) ''password'' = Some sch"
    and "Sensitive sch" and "\<not> IsObservation sch"
    and "''password'' \<notin> set omittedFields"
    and "lowerCamelComputed e ''password'' = ''password''"
    and "GetSchema (TerraformResource r) ''passwordSecretRef'' = None"
    and "\<forall>ps. fst ` set ps \<subseteq> set (rangeKeys e [] ps)"
  shows "transformFields e r [(''password'', VString ''${data.vault_secret.ex_db.password}'')]
           omittedFields []
         = [(''passwordSecretRef'',
             VMap [(''name'', VString ''example-''),
                   (''namespace'', VString ''upbound-system''),
                   (''key'', VString ''attribute.ex_db.password'')])]"
proof -
  define v where "v = VString ''${data.vault_secret.ex_db.password}''"
  define n where "n = ''password''"
  have sec: "getSecretRef v = (''example-'', ''attribute.ex_db.password'')"
    unfolding v_def by (simp add: getSecretRef_def ReRef_def reFile_def)
  have hn: "getHierarchicalName [] k = k" for k
    by (simp add: getHierarchicalName_def)
  have el: "elide r omittedFields [] [(n, v)] = [(n, v)]"
    using assms(1,3,4) unfolding n_def[symmetric] by (simp add: elide_def isStatus_def hn)
  have rec: "recurseInto e r omittedFields n v = v"
    unfolding v_def by simp
  have "fst ` set [(n, v)] \<subseteq> set (rangeKeys e [] [(n, v)])"
    using assms(7) by blast
  then have mem: "n \<in> set (rangeKeys e [] [(n, v)])" by simp
  have "rewriteFields e r [] (rangeKeys e [] [(n, v)]) [(n, v)]
      = [(lowerCamelComputed e n @ ''SecretRef'',
             getRefField v (VMap [(''name'', VString (fst (getSecretRef v))),
                                  (''namespace'', VString defaultNamespace),
                                  (''key'', VString (snd (getSecretRef v)))]))]"
  proof (rule rewriteFields_single_sensitive[where sch = sch])
    show "GetSchema (TerraformResource r) (getHierarchicalName [] n) = Some sch"
      using assms(1) by (simp add: hn n_def)
    show "Sensitive sch" by (rule assms(2))
    show "GetSchema (TerraformResource r)
            (getHierarchicalName [] (lowerCamelComputed e n @ ''SecretRef'')) = None"
      using assms(5,6) by (simp add: hn n_def)
    show "n \<in> set (rangeKeys e [] [(n, v)])" by (rule mem)
  qed
  moreover have "getRefField v x = x" for x
    unfolding v_def by (simp add: getRefField_def)
  moreover have "lowerCamelComputed e n @ ''SecretRef'' = ''passwordSecretRef''"
    using assms(5) by (simp add: n_def)
  ultimately have "rewriteFields e r [] (rangeKeys e [] [(n, v)]) [(n, v)]
      = [(''passwordSecretRef'',
             VMap [(''name'', VString ''example-''),
                   (''namespace'', VString ''upbound-system''),
                   (''key'', VString ''attribute.ex_db.password'')])]"
    by (simp only: sec fst_conv snd_conv defaultNamespace_def)
  moreover have "transformFields e r [(n, v)] omittedFields []
      = rewriteFields e r [] (rangeKeys e [] [(n, v)]) [(n, v)]"
    by (simp add: el rec hn Let_def)
  ultimately show ?thesis
    unfolding n_def v_def by (rule trans[rotated])
qed

theorem transformFields_password_secret_ref_witness:
  "transformFields exampleEnv passwordResource
      [(''password'', VString ''${data.vault_secret.ex_db.password}'')] [] []
   = [(''passwordSecretRef'',
       VMap [(''name'', VString ''example-''),
             (''namespace'', VString ''upbound-system''),
             (''key'', VString ''attribute.ex_db.password'')])]"
proof -
  have h1: "GetSchema (TerraformResource passwordResource) ''password''
              = Some \<lparr>SchemaType = TypeString, Sensitive = True, IsObservation = False\<rparr>"
    by (simp add: GetSchema_def passwordResource_def)
  have h2: "Sensitive \<lparr>SchemaType = TypeString, Sensitive = True, IsObservation = False\<rparr>"
    by simp
  have h3: "\<not> IsObservation \<lparr>SchemaType = TypeString, Sensitive = True, IsObservation = False\<rparr>"
    by simp
  have h4: "''password'' \<notin> set []" by simp
  have h5: "lowerCamelComputed exampleEnv ''password'' = ''password''"
    by (simp add: exampleEnv_def snakeToLowerCamel_def toLower_def toLowerChar_def)
  have h6: "GetSchema (TerraformResource passwordResource) ''passwordSecretRef'' = None"
    by (simp add: GetSchema_def passwordResource_def)
  have h7: "\<forall>ps. fst ` set ps \<subseteq> set (rangeKeys exampleEnv [] ps)"
    by (simp add: exampleEnv_def)
  show ?thesis
    by (rule transformFields_password_secret_ref[OF h1 h2 h3 h4 h5 h6 h7])
qed

text \<open>
  C2 as stated fails: the secret reference of the scenario has neither the name
  \<open>example-db\<close> nor the key \<open>attribute.password\<close>.
\<close>

theorem transformFields_password_counterexample:
  "getValue (transformFields exampleEnv passwordResource
      [(''password'', VString ''${data.vault_secret.ex_db.password}'')] [] [])
      [''passwordSecretRef'', ''name''] = Inr (VString ''example-'')
   \<and> getValue (transformFields exampleEnv passwordResource
      [(''password'', VString ''${data.vault_secret.ex_db.password}'')] [] [])
      [''passwordSecretRef'', ''name''] \<noteq> Inr (VString ''example-db'')
   \<and> getValue (transformFields exampleEnv passwordResource
      [(''password'', VString ''${data.vault_secret.ex_db.password}'')] [] [])
      [''passwordSecretRef'', ''key''] = Inr (VString ''attribute.ex_db.password'')
   \<and> getValue (transformFields exampleEnv passwordResource
      [(''password'', VString ''${data.vault_secret.ex_db.password}'')] [] [])
      [''passwordSecretRef'', ''key''] \<noteq> Inr (VString ''attribute.password'')"
  by code_simp

end
